theory Spec2Isabelle
  imports Main "HOL-Library.Char_ord" "HOL-Library.List_Lexorder"
begin

section \<open>Values, rows and the table \<open>pessoas\<close>\<close>

text \<open>
  \<^verbatim>\<open>server.js\<close> exists in three variants: on PostgreSQL with the minimal schema
  (lines 1-160), on SQLite with the minimal schema (lines 161-300) and on PostgreSQL with
  the extended schema (lines 301-547). Every column but \<open>id\<close> is \<open>TEXT\<close>, so a column
  value is a text or \<open>NULL\<close>. A request object is read only through property access
  (\<^verbatim>\<open>registro.nome\<close>, destructuring): it is modelled by the function that gives, for a
  property name, the text the driver binds, \<open>None\<close> when the property is absent,
  \<^verbatim>\<open>undefined\<close> or \<^verbatim>\<open>null\<close> (all three are bound as \<open>NULL\<close>).
\<close>

type_synonym sql_value = "string option"

type_synonym jobj = "string \<Rightarrow> sql_value"

type_synonym tuple = "(string \<times> sql_value) list"

datatype row = Row (row_id: nat) (row_data: tuple)

record schema =
  columns :: "string list"
  not_null :: "string list"

text \<open>\<^verbatim>\<open>CREATE TABLE IF NOT EXISTS pessoas\<close>, lines 28-41 and 185-198: the columns after
  \<open>id\<close>, and those declared \<open>NOT NULL\<close>, in declaration order.\<close>

definition pessoas_schema :: schema where
  "pessoas_schema = \<lparr>
     columns = [''nome'', ''email'', ''telefone'', ''cnsCpf'', ''nascimento'', ''cep'',
                ''logradouro'', ''numero'', ''bairro''],
     not_null = [''nome'', ''email'', ''cnsCpf''] \<rparr>"

text \<open>The extended table, lines 328-363.\<close>

definition pessoas_schema_ext :: schema where
  "pessoas_schema_ext = \<lparr>
     columns = [''data_cadastro'', ''nome'', ''email'', ''cnsCpf'', ''sexo'',
                ''data_nascimento'', ''nacionalidade'', ''raca_cor'', ''etnia'', ''cep'',
                ''logradouro'', ''numero'', ''bairro_corrego'', ''complemento'',
                ''cod_logradouro'', ''cidade'', ''uf'', ''telefone'', ''data_atendimento'',
                ''local_atendimento'', ''distancia_km'', ''procedimentos'', ''horario'',
                ''tipo_atendimento'', ''tipo_atendimento_cod'', ''transporte'', ''motorista'',
                ''hora_saida'', ''paciente_principal'', ''acompanhantes_vinculados'',
                ''observacao''],
     not_null = [''nome'', ''cnsCpf''] \<rparr>"

text \<open>The column that carries \<open>UNIQUE\<close> in all three tables.\<close>

definition natural_key :: string where
  "natural_key = ''cnsCpf''"

definition col :: "tuple \<Rightarrow> string \<Rightarrow> sql_value" where
  "col t c = (case map_of t c of Some v \<Rightarrow> v | None \<Rightarrow> None)"

definition key_of :: "row \<Rightarrow> sql_value" where
  "key_of r = col (row_data r) natural_key"

text \<open>
  \<^verbatim>\<open>INSERT INTO pessoas (c1, ..., cn) VALUES ($1, ..., $n)\<close> binds the i-th value to the
  i-th named column; a table column the statement does not name gets \<open>NULL\<close>.
  \<^verbatim>\<open>UPDATE pessoas SET c1 = $1, ...\<close> overwrites the named columns of an existing tuple.
\<close>

definition mk_tuple :: "string list \<Rightarrow> string list \<Rightarrow> sql_value list \<Rightarrow> tuple" where
  "mk_tuple tcols cols vals =
     map (\<lambda>c. (c, case map_of (zip cols vals) c of Some v \<Rightarrow> v | None \<Rightarrow> None)) tcols"

definition upd_tuple :: "tuple \<Rightarrow> string list \<Rightarrow> sql_value list \<Rightarrow> tuple" where
  "upd_tuple old cols vals =
     map (\<lambda>(c, v). (c, case map_of (zip cols vals) c of Some v' \<Rightarrow> v' | None \<Rightarrow> v)) old"

section \<open>Errors, commands and results\<close>

text \<open>A JavaScript error object as the handlers read it: \<^verbatim>\<open>error.code\<close> (undefined on a
  \<^verbatim>\<open>TypeError\<close>) and \<^verbatim>\<open>error.message\<close>.\<close>

datatype js_error = Error (code: "string option") (message: string)

datatype backend = Postgres | Sqlite

datatype conflict = Raise | Do_nothing

text \<open>The path parameter \<^verbatim>\<open>:id\<close> is a text; the store compares it with the integer
  column \<open>id\<close>. The model takes the outcome of that conversion as the input: an integer, or
  a text that is no integer.\<close>

datatype id_param = Id_int int | Id_text

text \<open>
  What a handler asks of the pool, the client or the database handle. \<open>Insert\<close> carries the
  statement's column list, the bound values, the conflict clause (\<open>Do_nothing\<close> for
  \<^verbatim>\<open>ON CONFLICT (cnsCpf) DO NOTHING\<close> and \<^verbatim>\<open>INSERT OR IGNORE\<close>) and whether it ends in
  \<^verbatim>\<open>RETURNING *\<close>.
\<close>

datatype cmd =
    Connect
  | Begin
  | Commit
  | Rollback
  | Insert "string list" "sql_value list" conflict bool
  | Update "string list" "sql_value list" id_param
  | Delete id_param
  | Select_all
  | Select_id id_param
  | Release

text \<open>A query result: \<^verbatim>\<open>rowCount\<close> (\<^verbatim>\<open>changes\<close> on SQLite), \<^verbatim>\<open>rows\<close> and SQLite's
  \<^verbatim>\<open>lastID\<close>.\<close>

datatype qresult = Result (rowCount: nat) (rows: "row list") (lastID: nat)

type_synonym 's exec = "'s \<Rightarrow> cmd \<Rightarrow> (js_error + qresult) \<times> 's"

section \<open>The store\<close>

text \<open>
  The table, the last value of the identifier sequence, and the snapshot taken by
  \<^verbatim>\<open>BEGIN\<close> while a transaction is open. Requests are handled one at a time.
\<close>

record store =
  table :: "row list"
  seq :: nat
  saved :: "(row list \<times> nat) option"

definition dq :: string where
  "dq = [CHR 0x22]"

definition sq :: string where
  "sq = [CHR 0x27]"

definition unique_violation :: "backend \<Rightarrow> js_error" where
  "unique_violation b = (case b of
     Postgres \<Rightarrow> Error (Some ''23505'')
       (''duplicate key value violates unique constraint '' @ dq @ ''pessoas_cnscpf_key'' @ dq)
   | Sqlite \<Rightarrow> Error (Some ''SQLITE_CONSTRAINT'')
       ''SQLITE_CONSTRAINT: UNIQUE constraint failed: pessoas.cnsCpf'')"

text \<open>
  PostgreSQL folds an unquoted identifier to lower case: the column the statements write
  \<open>cnsCpf\<close> is \<open>cnscpf\<close> in the table and in the messages of the server. The model keeps
  the columns under the names the statements give them and folds the name where the server
  prints it. SQLite keeps the name as declared.
\<close>

definition fold_char :: "char \<Rightarrow> char" where
  "fold_char c =
     (let n = (of_char c :: nat) in if 65 \<le> n \<and> n \<le> 90 then char_of (n + 32) else c)"

definition not_null_violation :: "backend \<Rightarrow> string \<Rightarrow> js_error" where
  "not_null_violation b c = (case b of
     Postgres \<Rightarrow> Error (Some ''23502'')
       (''null value in column '' @ dq @ map fold_char c @ dq @ '' of relation '' @ dq
         @ ''pessoas'' @ dq @ '' violates not-null constraint'')
   | Sqlite \<Rightarrow> Error (Some ''SQLITE_CONSTRAINT'')
       (''SQLITE_CONSTRAINT: NOT NULL constraint failed: pessoas.'' @ c))"

definition invalid_integer :: js_error where
  "invalid_integer = Error (Some ''22P02'') ''invalid input syntax for type integer''"

definition no_transaction :: "string \<Rightarrow> js_error" where
  "no_transaction what =
     Error (Some ''SQLITE_ERROR'') (''SQLITE_ERROR: cannot '' @ what @ '' - no transaction is active'')"

definition nested_transaction :: js_error where
  "nested_transaction =
     Error (Some ''SQLITE_ERROR'') ''SQLITE_ERROR: cannot start a transaction within a transaction''"

text \<open>The first \<open>NOT NULL\<close> column, in declaration order, that a tuple leaves \<open>NULL\<close>.\<close>

definition first_null :: "schema \<Rightarrow> tuple \<Rightarrow> string option" where
  "first_null sch t = find (\<lambda>c. col t c = None) (not_null sch)"

text \<open>
  One \<^verbatim>\<open>INSERT\<close>. Both stores check the \<open>NOT NULL\<close> columns before the unique index, so
  a \<open>NULL\<close> never reaches the index: \<open>cnsCpf\<close> is \<open>NOT NULL\<close> in all three tables.
  PostgreSQL draws the identifier from the sequence before any check and never gives a
  value back; its \<^verbatim>\<open>ON CONFLICT (cnsCpf) DO NOTHING\<close> skips a unique conflict only.
  SQLite takes an identifier only for the row it inserts, and its \<^verbatim>\<open>OR IGNORE\<close> skips the
  row on a \<open>NOT NULL\<close> violation as well. A statement that fails changes no row.
\<close>

definition insert_row ::
  "backend \<Rightarrow> schema \<Rightarrow> store \<Rightarrow> string list \<Rightarrow> sql_value list \<Rightarrow> conflict \<Rightarrow> bool
     \<Rightarrow> (js_error + qresult) \<times> store" where
  "insert_row b sch s cols vals oc ret =
     (let t = mk_tuple (columns sch) cols vals;
          i = Suc (seq s);
          s1 = (case b of Postgres \<Rightarrow> s\<lparr>seq := i\<rparr> | Sqlite \<Rightarrow> s)
      in case first_null sch t of
           Some c \<Rightarrow>
             (if b = Sqlite \<and> oc = Do_nothing then (Inr (Result 0 [] (seq s)), s1)
              else (Inl (not_null_violation b c), s1))
         | None \<Rightarrow>
             (if col t natural_key \<in> set (map key_of (table s)) then
                (case oc of
                   Do_nothing \<Rightarrow> (Inr (Result 0 [] (seq s)), s1)
                 | Raise \<Rightarrow> (Inl (unique_violation b), s1))
              else (Inr (Result 1 (if ret then [Row i t] else []) i),
                    s\<lparr>table := table s @ [Row i t], seq := i\<rparr>)))"

definition matches :: "id_param \<Rightarrow> row \<Rightarrow> bool" where
  "matches p r = (case p of Id_int i \<Rightarrow> int (row_id r) = i | Id_text \<Rightarrow> False)"

text \<open>\<^verbatim>\<open>UPDATE ... WHERE id = $n\<close>: PostgreSQL rejects a parameter that is no integer,
  SQLite compares it and finds no row.\<close>

definition update_row ::
  "backend \<Rightarrow> schema \<Rightarrow> store \<Rightarrow> string list \<Rightarrow> sql_value list \<Rightarrow> id_param
     \<Rightarrow> (js_error + qresult) \<times> store" where
  "update_row b sch s cols vals p =
     (if b = Postgres \<and> p = Id_text then (Inl invalid_integer, s)
      else case find (matches p) (table s) of
        None \<Rightarrow> (Inr (Result 0 [] (seq s)), s)
      | Some r \<Rightarrow>
          (let t = upd_tuple (row_data r) cols vals
           in case first_null sch t of
                Some c \<Rightarrow> (Inl (not_null_violation b c), s)
              | None \<Rightarrow>
                  (if \<exists>r' \<in> set (table s). row_id r' \<noteq> row_id r \<and> key_of r' = col t natural_key
                   then (Inl (unique_violation b), s)
                   else (Inr (Result 1 [Row (row_id r) t] (seq s)),
                         s\<lparr>table := map (\<lambda>r'. if row_id r' = row_id r then Row (row_id r) t else r')
                                      (table s)\<rparr>))))"

definition delete_row :: "backend \<Rightarrow> store \<Rightarrow> id_param \<Rightarrow> (js_error + qresult) \<times> store" where
  "delete_row b s p =
     (if b = Postgres \<and> p = Id_text then (Inl invalid_integer, s)
      else (Inr (Result (length (filter (matches p) (table s))) [] (seq s)),
            s\<lparr>table := filter (\<lambda>r. \<not> matches p r) (table s)\<rparr>))"

definition nome_of :: "row \<Rightarrow> string" where
  "nome_of r = (case col (row_data r) ''nome'' of Some n \<Rightarrow> n | None \<Rightarrow> [])"

text \<open>
  The store as the statements of \<^verbatim>\<open>server.js\<close> meet it. \<^verbatim>\<open>BEGIN\<close> keeps the table and
  the sequence as they are; \<^verbatim>\<open>ROLLBACK\<close> puts the table back (and, on SQLite, the
  sequence, which lives in a table of its own). Outside a transaction PostgreSQL answers
  \<^verbatim>\<open>COMMIT\<close> and \<^verbatim>\<open>ROLLBACK\<close> with a warning, SQLite with an error; inside one,
  PostgreSQL answers a second \<^verbatim>\<open>BEGIN\<close> with a warning, SQLite with an error. After a
  failed statement the handlers send \<^verbatim>\<open>ROLLBACK\<close> and nothing else, so the state in which
  PostgreSQL refuses further statements of a failed transaction is not told apart.
  \<^verbatim>\<open>ORDER BY nome\<close> is taken bytewise.
\<close>

definition store_exec :: "backend \<Rightarrow> schema \<Rightarrow> store exec" where
  "store_exec b sch s c = (case c of
     Connect \<Rightarrow> (Inr (Result 0 [] (seq s)), s)
   | Release \<Rightarrow> (Inr (Result 0 [] (seq s)), s)
   | Begin \<Rightarrow>
       (case saved s of
          None \<Rightarrow> (Inr (Result 0 [] (seq s)), s\<lparr>saved := Some (table s, seq s)\<rparr>)
        | Some _ \<Rightarrow>
            (case b of Postgres \<Rightarrow> (Inr (Result 0 [] (seq s)), s)
                     | Sqlite \<Rightarrow> (Inl nested_transaction, s)))
   | Commit \<Rightarrow>
       (case saved s of
          Some _ \<Rightarrow> (Inr (Result 0 [] (seq s)), s\<lparr>saved := None\<rparr>)
        | None \<Rightarrow>
            (case b of Postgres \<Rightarrow> (Inr (Result 0 [] (seq s)), s)
                     | Sqlite \<Rightarrow> (Inl (no_transaction ''commit''), s)))
   | Rollback \<Rightarrow>
       (case saved s of
          Some (t, q) \<Rightarrow>
            (Inr (Result 0 [] (seq s)),
             (case b of Postgres \<Rightarrow> s\<lparr>table := t, saved := None\<rparr>
                      | Sqlite \<Rightarrow> s\<lparr>table := t, seq := q, saved := None\<rparr>))
        | None \<Rightarrow>
            (case b of Postgres \<Rightarrow> (Inr (Result 0 [] (seq s)), s)
                     | Sqlite \<Rightarrow> (Inl (no_transaction ''rollback''), s)))
   | Insert cols vals oc ret \<Rightarrow> insert_row b sch s cols vals oc ret
   | Update cols vals p \<Rightarrow> update_row b sch s cols vals p
   | Delete p \<Rightarrow> delete_row b s p
   | Select_all \<Rightarrow>
       (Inr (Result (length (table s)) (sort_key nome_of (table s)) (seq s)), s)
   | Select_id p \<Rightarrow>
       (if b = Postgres \<and> p = Id_text then (Inl invalid_integer, s)
        else (Inr (Result (length (filter (matches p) (table s)))
                     (filter (matches p) (table s)) (seq s)), s)))"

definition empty_store :: store where
  "empty_store = \<lparr>table = [], seq = 0, saved = None\<rparr>"

section \<open>Responses\<close>

datatype json =
    Json_obj "(string \<times> string) list"
  | Json_row row
  | Json_rows "row list"
  | Json_undefined
  | No_body

record response =
  status :: nat
  body :: json

definition has_field :: "string \<Rightarrow> json \<Rightarrow> bool" where
  "has_field k j = (case j of Json_obj kvs \<Rightarrow> k \<in> set (map fst kvs) | _ \<Rightarrow> False)"

text \<open>\<^verbatim>\<open>res.status(st).json({ message: m, error: error.message })\<close>\<close>

definition error_response :: "nat \<Rightarrow> string \<Rightarrow> js_error \<Rightarrow> response" where
  "error_response st m e = \<lparr>status = st, body = Json_obj [(''message'', m), (''error'', message e)]\<rparr>"

text \<open>\<^verbatim>\<open>res.status(404).json({ message: ... })\<close>: the text \<^verbatim>\<open>Pessoa nao encontrada.\<close> with a
  tilde on the first a, in UTF-8 as the other accented texts below.\<close>

definition not_found_response :: response where
  "not_found_response =
     \<lparr>status = 404,
      body = Json_obj [(''message'', ''Pessoa n'' @ [CHR 0xC3, CHR 0xA3] @ ''o encontrada.'')]\<rparr>"

text \<open>\<^verbatim>\<open>result.rows[0]\<close>, which is \<^verbatim>\<open>undefined\<close> when there is no row.\<close>

definition first_row :: "row list \<Rightarrow> json" where
  "first_row rs = (case rs of [] \<Rightarrow> Json_undefined | r # _ \<Rightarrow> Json_row r)"

text \<open>The decimal numeral a template literal puts for a count.\<close>

definition digit :: "nat \<Rightarrow> char" where
  "digit d = ''0123456789'' ! d"

fun string_of_nat :: "nat \<Rightarrow> string" where
  "string_of_nat n =
     (if n < 10 then [digit n] else string_of_nat (n div 10) @ [digit (n mod 10)])"

declare string_of_nat.simps [simp del]

definition imported_message :: "nat \<Rightarrow> string" where
  "imported_message n = string_of_nat n @ '' registros importados com sucesso.''"

definition duplicate_message :: string where
  "duplicate_message = ''Erro: CNS/CPF j'' @ [CHR 0xC3, CHR 0xA1] @ '' cadastrado.''"

definition duplicate_message_update :: string where
  "duplicate_message_update =
     ''Erro: CNS/CPF j'' @ [CHR 0xC3, CHR 0xA1] @ '' cadastrado em outro registro.''"

definition batch_failed_message :: string where
  "batch_failed_message =
     ''Erro durante a importa'' @ [CHR 0xC3, CHR 0xA7, CHR 0xC3, CHR 0xA3] @ ''o em massa.''"

section \<open>The statements' column lists and value arrays\<close>

text \<open>Minimal schema: the column list of the \<^verbatim>\<open>INSERT\<close> and \<^verbatim>\<open>UPDATE\<close> texts (lines 72,
  92-94, 132, 221, 239-241, 275) and the property names of the \<^verbatim>\<open>values\<close> arrays (lines 75,
  97, 138, 224, 244, 281).\<close>

definition sql_columns :: "string list" where
  "sql_columns = [''nome'', ''email'', ''telefone'', ''cnsCpf'', ''nascimento'', ''cep'',
                  ''logradouro'', ''numero'', ''bairro'']"

definition value_names :: "string list" where
  "value_names = [''nome'', ''email'', ''telefone'', ''cnsCpf'', ''nascimento'', ''cep'',
                  ''logradouro'', ''numero'', ''bairro'']"

text \<open>Extended schema, single create and update: the column list (lines 408-412, 450-456) and
  the \<^verbatim>\<open>values\<close> array (lines 419-423, 461-465).\<close>

definition sql_columns_ext :: "string list" where
  "sql_columns_ext =
     [''data_cadastro'', ''nome'', ''email'', ''cnsCpf'', ''sexo'', ''data_nascimento'',
      ''nacionalidade'', ''raca_cor'', ''etnia'', ''cep'', ''logradouro'', ''numero'',
      ''bairro_corrego'', ''complemento'', ''cod_logradouro'', ''cidade'', ''uf'', ''telefone'',
      ''data_atendimento'', ''local_atendimento'', ''distancia_km'', ''procedimentos'',
      ''horario'', ''tipo_atendimento'', ''tipo_atendimento_cod'', ''transporte'', ''motorista'',
      ''hora_saida'', ''paciente_principal'', ''acompanhantes_vinculados'', ''observacao'']"

definition value_names_ext :: "string list" where
  "value_names_ext =
     [''data_cadastro'', ''nome'', ''email'', ''cnsCpf'', ''sexo'', ''data_nascimento'',
      ''nacionalidade'', ''raca_cor'', ''etnia'', ''cep'', ''logradouro'', ''numero'',
      ''bairro_corrego'', ''complemento'', ''cod_logradouro'', ''cidade'', ''uf'', ''telefone'',
      ''data_atendimento'', ''local_atendimento'', ''distancia_km'', ''procedimentos'',
      ''horario'', ''tipo_atendimento'', ''tipo_atendimento_cod'', ''transporte'', ''motorista'',
      ''hora_saida'', ''paciente_principal'', ''acompanhantes_vinculados'', ''observacao'']"

text \<open>Extended schema, batch import: the column list (lines 504-508) and the \<^verbatim>\<open>values\<close>
  array (lines 518-524); \<open>telefone\<close> comes fourth in both.\<close>

definition sql_columns_ext_batch :: "string list" where
  "sql_columns_ext_batch =
     [''data_cadastro'', ''nome'', ''email'', ''telefone'', ''cnsCpf'', ''sexo'',
      ''data_nascimento'', ''nacionalidade'', ''raca_cor'', ''etnia'', ''cep'', ''logradouro'',
      ''numero'', ''bairro_corrego'', ''complemento'', ''cod_logradouro'', ''cidade'', ''uf'',
      ''data_atendimento'', ''local_atendimento'', ''distancia_km'', ''procedimentos'',
      ''horario'', ''tipo_atendimento'', ''tipo_atendimento_cod'', ''transporte'', ''motorista'',
      ''hora_saida'', ''paciente_principal'', ''acompanhantes_vinculados'', ''observacao'']"

definition value_names_ext_batch :: "string list" where
  "value_names_ext_batch =
     [''data_cadastro'', ''nome'', ''email'', ''telefone'', ''cnsCpf'', ''sexo'',
      ''data_nascimento'', ''nacionalidade'', ''raca_cor'', ''etnia'', ''cep'', ''logradouro'',
      ''numero'', ''bairro_corrego'', ''complemento'', ''cod_logradouro'', ''cidade'', ''uf'',
      ''data_atendimento'', ''local_atendimento'', ''distancia_km'', ''procedimentos'',
      ''horario'', ''tipo_atendimento'', ''tipo_atendimento_cod'', ''transporte'', ''motorista'',
      ''hora_saida'', ''paciente_principal'', ''acompanhantes_vinculados'', ''observacao'']"

section \<open>The handlers on PostgreSQL\<close>


definition create_pessoa :: "string list \<Rightarrow> string list \<Rightarrow> 's exec \<Rightarrow> 's \<Rightarrow> jobj \<Rightarrow> response \<times> 's" where
  "create_pessoa cols names exec s b = (case exec s (Insert cols (map b names) Raise True) of
     (Inr r, s') \<Rightarrow> (\<lparr>status = 201, body = first_row (rows r)\<rparr>, s')
   | (Inl e, s') \<Rightarrow>
       (if code e = Some ''23505'' then (error_response 409 duplicate_message e, s')
        else (error_response 500 ''Erro ao criar pessoa.'' e, s')))"

definition update_pessoa ::
  "string list \<Rightarrow> string list \<Rightarrow> 's exec \<Rightarrow> 's \<Rightarrow> id_param \<Rightarrow> jobj \<Rightarrow> response \<times> 's" where
  "update_pessoa cols names exec s p b = (case exec s (Update cols (map b names) p) of
     (Inr r, s') \<Rightarrow>
       (if rowCount r = 0 then (not_found_response, s')
        else (\<lparr>status = 200, body = first_row (rows r)\<rparr>, s'))
   | (Inl e, s') \<Rightarrow>
       (if code e = Some ''23505'' then (error_response 409 duplicate_message_update e, s')
        else (error_response 500 ''Erro ao atualizar pessoa.'' e, s')))"


text \<open>
  The request body of the batch import: an array, whose elements are objects or \<^verbatim>\<open>null\<close>
  (reading a property of \<^verbatim>\<open>null\<close> throws), or a body that is no array, which
  \<^verbatim>\<open>for ... of\<close> cannot iterate.
\<close>

datatype batch_body = Body_array "jobj option list" | Body_object

definition null_element :: "string list \<Rightarrow> js_error" where
  "null_element names =
     Error None (''Cannot read properties of null (reading '' @ sq @ concat (take 1 names) @ sq @ '')'')"

definition not_iterable :: js_error where
  "not_iterable = Error None ''novosRegistros is not iterable''"

text \<open>
  The \<^verbatim>\<open>for\<close> loop of lines 137-141 (280-283, 516-528), with \<^verbatim>\<open>importadosCount\<close> as the
  accumulator: the count or the error thrown, the store, and the statements sent.
\<close>

fun import_loop ::
  "string list \<Rightarrow> string list \<Rightarrow> 's exec \<Rightarrow> 's \<Rightarrow> nat \<Rightarrow> jobj option list
     \<Rightarrow> (js_error + nat) \<times> 's \<times> cmd list" where
  "import_loop cols names exec s n [] = (Inr n, s, [])"
| "import_loop cols names exec s n (None # rs) = (Inl (null_element names), s, [])"
| "import_loop cols names exec s n (Some r # rs) =
     (let q = Insert cols (map r names) Do_nothing False
      in case exec s q of
           (Inl e, s') \<Rightarrow> (Inl e, s', [q])
         | (Inr res, s') \<Rightarrow>
             (case import_loop cols names exec s' (if rowCount res > 0 then Suc n else n) rs of
                (out, s'', tr) \<Rightarrow> (out, s'', q # tr)))"

text \<open>
  The body of the \<^verbatim>\<open>try\<close> block, lines 131-142 (279-284, 501-529): \<^verbatim>\<open>BEGIN\<close>, the loop,
  \<^verbatim>\<open>COMMIT\<close>. It gives the count, or the first error thrown, with the store and the
  statements sent so far.
\<close>

definition batch_try ::
  "string list \<Rightarrow> string list \<Rightarrow> 's exec \<Rightarrow> 's \<Rightarrow> batch_body
     \<Rightarrow> (js_error + nat) \<times> 's \<times> cmd list" where
  "batch_try cols names exec s b = (case exec s Begin of
     (Inl e, s1) \<Rightarrow> (Inl e, s1, [Begin])
   | (Inr _, s1) \<Rightarrow>
       (case b of
          Body_object \<Rightarrow> (Inl not_iterable, s1, [Begin])
        | Body_array rs \<Rightarrow>
            (case import_loop cols names exec s1 0 rs of
               (Inl e, s2, tr) \<Rightarrow> (Inl e, s2, Begin # tr)
             | (Inr n, s2, tr) \<Rightarrow>
                 (case exec s2 Commit of
                    (Inl e, s3) \<Rightarrow> (Inl e, s3, Begin # tr @ [Commit])
                  | (Inr _, s3) \<Rightarrow> (Inr n, s3, Begin # tr @ [Commit])))))"

text \<open>The \<^verbatim>\<open>catch\<close> and \<^verbatim>\<open>finally\<close> blocks of lines 144-150: when \<^verbatim>\<open>ROLLBACK\<close> itself
  throws, the handler sends no response (\<open>None\<close>) and ends by throwing;
  \<^verbatim>\<open>client.release()\<close> is called in both cases, and what it returns is not read.\<close>

definition rollback_release ::
  "'s exec \<Rightarrow> 's \<Rightarrow> js_error \<Rightarrow> cmd list \<Rightarrow> response option \<times> 's \<times> cmd list" where
  "rollback_release exec s e tr = (case exec s Rollback of
     (Inl e', s') \<Rightarrow> (None, snd (exec s' Release), tr @ [Rollback, Release])
   | (Inr _, s') \<Rightarrow>
       (Some (error_response 500 batch_failed_message e), snd (exec s' Release),
        tr @ [Rollback, Release]))"

text \<open>Lines 128-151: \<^verbatim>\<open>pool.connect()\<close> stands before the \<^verbatim>\<open>try\<close>, so its failure ends
  the handler with no response and nothing to release. The result \<open>None\<close> says that the
  handler threw without answering: what the client then receives is decided by the
  framework (an error page of its own, or nothing), never a body written by this code.\<close>

definition batch_import ::
  "string list \<Rightarrow> string list \<Rightarrow> 's exec \<Rightarrow> 's \<Rightarrow> batch_body
     \<Rightarrow> response option \<times> 's \<times> cmd list" where
  "batch_import cols names exec s0 b = (case exec s0 Connect of
     (Inl e, s) \<Rightarrow> (None, s, [Connect])
   | (Inr _, s) \<Rightarrow>
       (case batch_try cols names exec s b of
          (Inl e, s2, tr) \<Rightarrow> rollback_release exec s2 e (Connect # tr)
        | (Inr n, s2, tr) \<Rightarrow>
            (Some \<lparr>status = 201, body = Json_obj [(''message'', imported_message n)]\<rparr>,
             snd (exec s2 Release), Connect # tr @ [Release])))"

section \<open>The handlers on SQLite\<close>

text \<open>Lines 209-290. Listing and deleting read as on PostgreSQL; creating and updating
  run the statement and then fetch the row, and test \<^verbatim>\<open>error.code\<close> against
  \<^verbatim>\<open>'SQLITE_CONSTRAINT'\<close>.\<close>

definition create_catch_sqlite :: "js_error \<Rightarrow> response" where
  "create_catch_sqlite e =
     (if code e = Some ''SQLITE_CONSTRAINT'' then error_response 409 duplicate_message e
      else error_response 500 ''Erro ao criar pessoa.'' e)"

definition create_pessoa_sqlite :: "'s exec \<Rightarrow> 's \<Rightarrow> jobj \<Rightarrow> response \<times> 's" where
  "create_pessoa_sqlite exec s b =
     (case exec s (Insert sql_columns (map b value_names) Raise False) of
        (Inl e, s') \<Rightarrow> (create_catch_sqlite e, s')
      | (Inr r, s') \<Rightarrow>
          (case exec s' (Select_id (Id_int (int (lastID r)))) of
             (Inl e, s'') \<Rightarrow> (create_catch_sqlite e, s'')
           | (Inr g, s'') \<Rightarrow> (\<lparr>status = 201, body = first_row (rows g)\<rparr>, s'')))"

definition update_catch_sqlite :: "js_error \<Rightarrow> response" where
  "update_catch_sqlite e =
     (if code e = Some ''SQLITE_CONSTRAINT'' then error_response 409 duplicate_message_update e
      else error_response 500 ''Erro ao atualizar pessoa.'' e)"

definition update_pessoa_sqlite :: "'s exec \<Rightarrow> 's \<Rightarrow> id_param \<Rightarrow> jobj \<Rightarrow> response \<times> 's" where
  "update_pessoa_sqlite exec s p b =
     (case exec s (Update sql_columns (map b value_names) p) of
        (Inl e, s') \<Rightarrow> (update_catch_sqlite e, s')
      | (Inr r, s') \<Rightarrow>
          (if rowCount r = 0 then (not_found_response, s')
           else case exec s' (Select_id p) of
                  (Inl e, s'') \<Rightarrow> (update_catch_sqlite e, s'')
                | (Inr g, s'') \<Rightarrow> (\<lparr>status = 200, body = first_row (rows g)\<rparr>, s'')))"

text \<open>Lines 273-290: one shared database handle, so nothing is connected or released.\<close>

definition rollback_sqlite ::
  "'s exec \<Rightarrow> 's \<Rightarrow> js_error \<Rightarrow> cmd list \<Rightarrow> response option \<times> 's \<times> cmd list" where
  "rollback_sqlite exec s e tr = (case exec s Rollback of
     (Inl e', s') \<Rightarrow> (None, s', tr @ [Rollback])
   | (Inr _, s') \<Rightarrow> (Some (error_response 500 batch_failed_message e), s', tr @ [Rollback]))"

definition batch_import_sqlite ::
  "'s exec \<Rightarrow> 's \<Rightarrow> batch_body \<Rightarrow> response option \<times> 's \<times> cmd list" where
  "batch_import_sqlite exec s b = (case batch_try sql_columns value_names exec s b of
     (Inl e, s2, tr) \<Rightarrow> rollback_sqlite exec s2 e tr
   | (Inr n, s2, tr) \<Rightarrow>
       (Some \<lparr>status = 201, body = Json_obj [(''message'', imported_message n)]\<rparr>, s2, tr))"

section \<open>What the batch import is to compute\<close>

text \<open>The tuple a candidate is bound to, and the candidates of a body that are objects.\<close>

definition tuple_of :: "schema \<Rightarrow> string list \<Rightarrow> string list \<Rightarrow> jobj \<Rightarrow> tuple" where
  "tuple_of sch cols names r = mk_tuple (columns sch) cols (map r names)"

fun objects :: "jobj option list \<Rightarrow> jobj list" where
  "objects [] = []"
| "objects (None # rs) = objects rs"
| "objects (Some r # rs) = r # objects rs"

text \<open>
  The specification's rule of deduplication, written from its words: going through the
  candidates in order, one whose natural key is among the keys seen so far (those of the
  rows that existed before, and those of the candidates taken earlier in the batch) is
  skipped; the others are taken.
\<close>

fun firsts :: "sql_value list \<Rightarrow> tuple list \<Rightarrow> tuple list" where
  "firsts seen [] = []"
| "firsts seen (t # ts) =
     (if col t natural_key \<in> set seen then firsts seen ts
      else t # firsts (col t natural_key # seen) ts)"

text \<open>
  The first error the loop meets on PostgreSQL, where it does not depend on the rows
  present: a \<^verbatim>\<open>null\<close> element, or a candidate that leaves a \<open>NOT NULL\<close> column empty.
\<close>

fun first_failure :: "schema \<Rightarrow> string list \<Rightarrow> string list \<Rightarrow> jobj option list \<Rightarrow> js_error option" where
  "first_failure sch cols names [] = None"
| "first_failure sch cols names (None # rs) = Some (null_element names)"
| "first_failure sch cols names (Some r # rs) =
     (case first_null sch (tuple_of sch cols names r) of
        Some c \<Rightarrow> Some (not_null_violation Postgres c)
      | None \<Rightarrow> first_failure sch cols names rs)"


section \<open>Sequences of calls\<close>


section \<open>Stores that fail, stores that keep a log\<close>

text \<open>
  A store on which the commands chosen by \<open>f\<close> fail for a reason of their own (a lost
  connection, a timeout, a deadlock): such a command throws the error \<open>f\<close> gives and
  changes nothing; every other command is answered by the store beneath.
\<close>

definition faulty :: "(cmd \<Rightarrow> js_error option) \<Rightarrow> 's exec \<Rightarrow> 's exec" where
  "faulty f exec s c = (case f c of Some e \<Rightarrow> (Inl e, s) | None \<Rightarrow> exec s c)"


section \<open>The shape of a response\<close>


section \<open>Requests and stores to run the handlers on\<close>

definition person :: "string \<Rightarrow> string \<Rightarrow> sql_value \<Rightarrow> jobj" where
  "person n e k = (\<lambda>_. None)(''nome'' := Some n, ''email'' := Some e, ''cnsCpf'' := k)"

definition ana :: jobj where "ana = person ''Ana'' ''ana@x.org'' (Some ''1'')"
definition bia :: jobj where "bia = person ''Bia'' ''bia@x.org'' (Some ''2'')"
definition caio :: jobj where "caio = person ''Caio'' ''caio@x.org'' (Some ''1'')"
definition eva :: jobj where "eva = person ''Eva'' ''eva@x.org'' None"
definition flor :: jobj where "flor = person ''Flor'' ''flor@x.org'' (Some ''9'')"

definition sem_nome :: jobj where
  "sem_nome = (\<lambda>_. None)(''email'' := Some ''flor@x.org'', ''cnsCpf'' := Some ''9'')"

text \<open>A request for the extended schema.\<close>

definition paciente :: jobj where
  "paciente = (\<lambda>_. None)(''nome'' := Some ''Gil'', ''cnsCpf'' := Some ''7'',
     ''telefone'' := Some ''5550100'', ''sexo'' := Some ''M'', ''uf'' := Some ''MG'')"







definition row_of :: "nat \<Rightarrow> jobj \<Rightarrow> row" where
  "row_of i r = Row i (tuple_of pessoas_schema sql_columns value_names r)"

definition store_with_flor :: store where
  "store_with_flor = \<lparr>table = [row_of 1 flor], seq = 1, saved = None\<rparr>"

section \<open>The loop on the store\<close>

lemma firsts_cong: "set seen = set seen' \<Longrightarrow> firsts seen ts = firsts seen' ts"
proof (induction ts arbitrary: seen seen')
  case Nil
  show ?case by simp
next
  case (Cons t ts)
  have "set (col t natural_key # seen) = set (col t natural_key # seen')"
    using Cons.prems by simp
  then have a: "firsts (col t natural_key # seen) ts = firsts (col t natural_key # seen') ts"
    by (rule Cons.IH)
  have b: "firsts seen ts = firsts seen' ts"
    using Cons.prems by (rule Cons.IH)
  show ?case using a b Cons.prems by simp
qed


lemma length_firsts:
  "length (firsts seen ts) = card (set (map (\<lambda>t. col t natural_key) ts) - set seen)"
proof (induction ts arbitrary: seen)
  case Nil
  then show ?case by simp
next
  case (Cons t ts)
  let ?k = "col t natural_key"
  let ?S = "set (map (\<lambda>t. col t natural_key) ts)"
  show ?case
  proof (cases "?k \<in> set seen")
    case True
    then have "insert ?k ?S - set seen = ?S - set seen"
      by blast
    with True Cons.IH[of seen] show ?thesis by simp
  next
    case False
    have eq: "insert ?k ?S - set seen = insert ?k (?S - set (?k # seen))"
      using False by auto
    have "card (insert ?k (?S - set (?k # seen))) = Suc (card (?S - set (?k # seen)))"
      by (rule card_insert_disjoint) auto
    with False Cons.IH[of "?k # seen"] eq show ?thesis by simp
  qed
qed

lemma insert_do_nothing:
  "store_exec b sch s (Insert cols vals Do_nothing ret) =
     (let t = mk_tuple (columns sch) cols vals in
      case first_null sch t of
        Some c \<Rightarrow>
          (if b = Sqlite then (Inr (Result 0 [] (seq s)), s)
           else (Inl (not_null_violation b c), s\<lparr>seq := Suc (seq s)\<rparr>))
      | None \<Rightarrow>
          (if col t natural_key \<in> set (map key_of (table s))
           then (Inr (Result 0 [] (seq s)), (if b = Sqlite then s else s\<lparr>seq := Suc (seq s)\<rparr>))
           else (Inr (Result 1 (if ret then [Row (Suc (seq s)) t] else []) (Suc (seq s))),
                 s\<lparr>table := table s @ [Row (Suc (seq s)) t], seq := Suc (seq s)\<rparr>)))"
  by (cases b) (simp_all add: store_exec_def insert_row_def Let_def split: option.splits)


lemma import_loop_store:
  "import_loop cols names (store_exec b sch) s n rs = (Inr m, s', tr) \<Longrightarrow>
     saved s' = saved s \<and>
     (\<exists>added. table s' = table s @ added
        \<and> map row_data added =
            firsts (map key_of (table s))
              (filter (\<lambda>t. first_null sch t = None) (map (tuple_of sch cols names) (objects rs)))
        \<and> m = n + length added)"
proof (induction rs arbitrary: s n tr)
  case Nil
  then show ?case by simp
next
  case (Cons x rs)
  show ?case
  proof (cases x)
    case None
    with Cons.prems show ?thesis by simp
  next
    case (Some r)
    let ?t = "tuple_of sch cols names r"
    let ?k = "col ?t natural_key"
    let ?rest = "filter (\<lambda>t. first_null sch t = None) (map (tuple_of sch cols names) (objects rs))"
    have t: "mk_tuple (columns sch) cols (map r names) = ?t"
      by (simp add: tuple_of_def)
    show ?thesis
    proof (cases "first_null sch ?t")
      case (Some c)
      show ?thesis
      proof (cases b)
        case Postgres
        with Cons.prems \<open>x = Some r\<close> Some show ?thesis
          by (simp add: insert_do_nothing t)
      next
        case Sqlite
        with Cons.prems \<open>x = Some r\<close> Some
        have "\<exists>tr'. import_loop cols names (store_exec b sch) s n rs = (Inr m, s', tr')"
          by (simp add: insert_do_nothing t split: prod.splits)
        then obtain tr' where "import_loop cols names (store_exec b sch) s n rs = (Inr m, s', tr')" ..
        from Cons.IH[OF this] \<open>x = Some r\<close> Some show ?thesis by simp
      qed
    next
      case None
      show ?thesis
      proof (cases "?k \<in> set (map key_of (table s))")
        case True
        define s1 where "s1 = (if b = Sqlite then s else s\<lparr>seq := Suc (seq s)\<rparr>)"
        have s1: "table s1 = table s" "saved s1 = saved s"
          by (simp_all add: s1_def)
        from Cons.prems \<open>x = Some r\<close> None True
        have "\<exists>tr'. import_loop cols names (store_exec b sch) s1 n rs = (Inr m, s', tr')"
          by (cases b) (auto simp add: insert_do_nothing t s1_def split: prod.splits)
        then obtain tr' where "import_loop cols names (store_exec b sch) s1 n rs = (Inr m, s', tr')" ..
        from Cons.IH[OF this] \<open>x = Some r\<close> None True s1 show ?thesis by simp
      next
        case False
        define s1 where "s1 = s\<lparr>table := table s @ [Row (Suc (seq s)) ?t], seq := Suc (seq s)\<rparr>"
        have s1: "table s1 = table s @ [Row (Suc (seq s)) ?t]" "saved s1 = saved s"
          by (simp_all add: s1_def)
        from Cons.prems \<open>x = Some r\<close> None False
        have "\<exists>tr'. import_loop cols names (store_exec b sch) s1 (Suc n) rs = (Inr m, s', tr')"
          by (simp add: insert_do_nothing t s1_def split: prod.splits)
        then obtain tr' where "import_loop cols names (store_exec b sch) s1 (Suc n) rs = (Inr m, s', tr')" ..
        from Cons.IH[OF this] obtain added where
          a: "saved s' = saved s1" "table s' = table s1 @ added"
             "map row_data added = firsts (map key_of (table s1)) ?rest"
             "m = Suc n + length added"
          by blast
        have "set (map key_of (table s1)) = set (?k # map key_of (table s))"
          by (simp add: s1 key_of_def)
        then have f: "firsts (map key_of (table s1)) ?rest = firsts (?k # map key_of (table s)) ?rest"
          by (rule firsts_cong)
        let ?added = "Row (Suc (seq s)) ?t # added"
        have c1: "table s' = table s @ ?added"
          using a(2) s1 by simp
        have c2: "map row_data ?added =
            firsts (map key_of (table s))
              (filter (\<lambda>t. first_null sch t = None) (map (tuple_of sch cols names) (objects (x # rs))))"
          using a(3) f \<open>x = Some r\<close> None False by simp
        have c3: "m = n + length ?added"
          using a(4) by simp
        have c0: "saved s' = saved s"
          using a(1) s1 by simp
        show ?thesis
          by (rule conjI[OF c0]) (rule exI[of _ ?added], intro conjI c1 c2 c3)
      qed
    qed
  qed
qed


lemma import_loop_pg:
  "import_loop cols names (store_exec Postgres sch) s n rs = (out, s', tr) \<Longrightarrow>
     saved s' = saved s \<and>
     (case first_failure sch cols names rs of
        Some e \<Rightarrow> out = Inl e
      | None \<Rightarrow> (\<exists>m. out = Inr m))"
proof (induction rs arbitrary: s n tr)
  case Nil
  then show ?case by auto
next
  case (Cons x rs)
  show ?case
  proof (cases x)
    case None
    with Cons.prems show ?thesis by auto
  next
    case (Some r)
    let ?t = "tuple_of sch cols names r"
    have t: "mk_tuple (columns sch) cols (map r names) = ?t"
      by (simp add: tuple_of_def)
    show ?thesis
    proof (cases "first_null sch ?t")
      case (Some c)
      with Cons.prems \<open>x = Some r\<close> show ?thesis
        by (auto simp add: insert_do_nothing t)
    next
      case None
      have "\<exists>s1 n1 tr'. saved s1 = saved s
              \<and> import_loop cols names (store_exec Postgres sch) s1 n1 rs = (out, s', tr')"
      proof (cases "col ?t natural_key \<in> set (map key_of (table s))")
        case True
        with Cons.prems \<open>x = Some r\<close> None
        have "\<exists>tr'. import_loop cols names (store_exec Postgres sch) (s\<lparr>seq := Suc (seq s)\<rparr>) n rs
                 = (out, s', tr')"
          by (simp add: insert_do_nothing t split: prod.splits)
        moreover have "saved (s\<lparr>seq := Suc (seq s)\<rparr>) = saved s"
          by simp
        ultimately show ?thesis by blast
      next
        case False
        let ?s1 = "s\<lparr>table := table s @ [Row (Suc (seq s)) ?t], seq := Suc (seq s)\<rparr>"
        from False Cons.prems \<open>x = Some r\<close> None
        have "\<exists>tr'. import_loop cols names (store_exec Postgres sch) ?s1 (Suc n) rs = (out, s', tr')"
          by (simp add: insert_do_nothing t split: prod.splits)
        moreover have "saved ?s1 = saved s"
          by simp
        ultimately show ?thesis by blast
      qed
      then obtain s1 n1 tr' where
        s1: "saved s1 = saved s" and
        rec: "import_loop cols names (store_exec Postgres sch) s1 n1 rs = (out, s', tr')"
        by blast
      from Cons.IH[OF rec] s1 \<open>x = Some r\<close> None show ?thesis by simp
    qed
  qed
qed

lemma first_failure_None:
  "first_failure sch cols names rs = None \<Longrightarrow>
     filter (\<lambda>t. first_null sch t = None) (map (tuple_of sch cols names) (objects rs))
       = map (tuple_of sch cols names) (objects rs)
     \<and> rs = map Some (objects rs)"
proof (induction rs)
  case Nil
  show ?case by simp
next
  case (Cons x rs)
  then show ?case
    by (cases x) (auto split: option.splits)
qed

lemma import_loop_trace:
  "import_loop cols names exec s n rs = (out, s', tr) \<Longrightarrow>
     (\<exists>k. tr = map (\<lambda>r. Insert cols (map r names) Do_nothing False) (take k (objects rs)))
     \<and> (\<forall>m. out = Inr m \<longrightarrow>
           tr = map (\<lambda>r. Insert cols (map r names) Do_nothing False) (objects rs))"
proof (induction rs arbitrary: s n tr)
  case Nil
  then show ?case by simp
next
  case (Cons x rs)
  let ?ins = "\<lambda>r. Insert cols (map r names) Do_nothing False"
  show ?case
  proof (cases x)
    case None
    with Cons.prems have "tr = map ?ins (take 0 (objects (x # rs)))" "out = Inl (null_element names)"
      by auto
    then show ?thesis by blast
  next
    case (Some r)
    obtain o1 s1 where ex: "exec s (?ins r) = (o1, s1)"
      by (cases "exec s (?ins r)")
    show ?thesis
    proof (cases o1)
      case (Inl e)
      with Cons.prems Some ex have "tr = map ?ins (take 1 (objects (x # rs)))" "out = Inl e"
        by simp_all
      then show ?thesis by blast
    next
      case (Inr res)
      with Cons.prems Some ex obtain tr' where
        rec: "import_loop cols names exec s1 (if rowCount res > 0 then Suc n else n) rs = (out, s', tr')"
        and tr: "tr = ?ins r # tr'"
        by (auto split: prod.splits)
      from Cons.IH[OF rec] obtain k where
        k: "tr' = map ?ins (take k (objects rs))" and
        full: "\<forall>m. out = Inr m \<longrightarrow> tr' = map ?ins (objects rs)"
        by blast
      have "tr = map ?ins (take (Suc k) (objects (x # rs)))"
        using tr k Some by simp
      moreover have "\<forall>m. out = Inr m \<longrightarrow> tr = map ?ins (objects (x # rs))"
        using tr full Some by simp
      ultimately show ?thesis by blast
    qed
  qed
qed

section \<open>The batch import on PostgreSQL\<close>

lemma pg_connect: "store_exec Postgres sch s Connect = (Inr (Result 0 [] (seq s)), s)"
  by (simp add: store_exec_def)

lemma pg_release: "store_exec Postgres sch s Release = (Inr (Result 0 [] (seq s)), s)"
  by (simp add: store_exec_def)

lemma pg_begin:
  "store_exec Postgres sch s Begin =
     (Inr (Result 0 [] (seq s)),
      (case saved s of None \<Rightarrow> s\<lparr>saved := Some (table s, seq s)\<rparr> | Some _ \<Rightarrow> s))"
  by (simp add: store_exec_def split: option.splits)

lemma pg_commit:
  "store_exec Postgres sch s Commit = (Inr (Result 0 [] (seq s)), s\<lparr>saved := None\<rparr>)"
  by (simp add: store_exec_def split: option.splits)

lemma pg_rollback:
  "store_exec Postgres sch s Rollback =
     (Inr (Result 0 [] (seq s)),
      (case saved s of Some (t, q) \<Rightarrow> s\<lparr>table := t, saved := None\<rparr> | None \<Rightarrow> s))"
  by (simp add: store_exec_def split: option.splits)

lemma batch_import_pg:
  assumes "import_loop cols names (store_exec Postgres sch)
             (case saved s of None \<Rightarrow> s\<lparr>saved := Some (table s, seq s)\<rparr> | Some _ \<Rightarrow> s) 0 rs
           = (out, s2, tr)"
  shows "batch_import cols names (store_exec Postgres sch) s (Body_array rs) =
     (case out of
        Inr n \<Rightarrow>
          (Some \<lparr>status = 201, body = Json_obj [(''message'', imported_message n)]\<rparr>,
           s2\<lparr>saved := None\<rparr>, Connect # Begin # tr @ [Commit, Release])
      | Inl e \<Rightarrow>
          (Some (error_response 500 batch_failed_message e),
           (case saved s2 of Some (t, q) \<Rightarrow> s2\<lparr>table := t, saved := None\<rparr> | None \<Rightarrow> s2),
           Connect # Begin # tr @ [Rollback, Release]))"
  using assms
  by (cases out)
     (simp_all add: batch_import_def batch_try_def rollback_release_def pg_connect pg_begin
        pg_commit pg_rollback pg_release)

lemma string_of_nat_0: "string_of_nat 0 = ''0''"
  by (simp add: string_of_nat.simps digit_def)

lemma batch_import_pg_object:
  "batch_import cols names (store_exec Postgres sch) s Body_object =
     (Some (error_response 500 batch_failed_message not_iterable),
      (case saved s of None \<Rightarrow> s\<lparr>saved := None\<rparr> | Some (t, q) \<Rightarrow> s\<lparr>table := t, saved := None\<rparr>),
      [Connect, Begin, Rollback, Release])"
  by (simp add: batch_import_def batch_try_def rollback_release_def pg_connect pg_begin
        pg_rollback pg_release split: option.splits)



lemma batch_import_pg_ok:
  assumes "first_failure sch cols names rs = None"
  shows "\<exists>added s'.
           batch_import cols names (store_exec Postgres sch) s (Body_array rs) =
             (Some \<lparr>status = 201,
                    body = Json_obj [(''message'', imported_message (length added))]\<rparr>,
              s',
              Connect # Begin # map (\<lambda>r. Insert cols (map r names) Do_nothing False) (objects rs)
                @ [Commit, Release])
           \<and> table s' = table s @ added
           \<and> map row_data added =
               firsts (map key_of (table s)) (map (tuple_of sch cols names) (objects rs))
           \<and> saved s' = None"
proof -
  let ?s1 = "case saved s of None \<Rightarrow> s\<lparr>saved := Some (table s, seq s)\<rparr> | Some _ \<Rightarrow> s"
  have t1: "table ?s1 = table s"
    by (simp split: option.splits)
  obtain out s2 tr where
    loop: "import_loop cols names (store_exec Postgres sch) ?s1 0 rs = (out, s2, tr)"
    by (cases "import_loop cols names (store_exec Postgres sch) ?s1 0 rs")
  from import_loop_pg[OF loop] assms obtain m where out: "out = Inr m"
    by auto
  from import_loop_trace[OF loop] out
  have tr: "tr = map (\<lambda>r. Insert cols (map r names) Do_nothing False) (objects rs)"
    by simp
  from import_loop_store[OF loop[unfolded out]] first_failure_None[OF assms] t1
  obtain added where
    a: "table s2 = table s @ added"
       "map row_data added =
          firsts (map key_of (table s)) (map (tuple_of sch cols names) (objects rs))"
       "m = length added"
    by auto
  from batch_import_pg[OF loop] out tr a(3)
  have "batch_import cols names (store_exec Postgres sch) s (Body_array rs) =
             (Some \<lparr>status = 201,
                    body = Json_obj [(''message'', imported_message (length added))]\<rparr>,
              s2\<lparr>saved := None\<rparr>,
              Connect # Begin # map (\<lambda>r. Insert cols (map r names) Do_nothing False) (objects rs)
                @ [Commit, Release])"
    by simp
  moreover have "table (s2\<lparr>saved := None\<rparr>) = table s @ added"
    using a(1) by simp
  moreover have "saved (s2\<lparr>saved := None\<rparr>) = None"
    by simp
  ultimately show ?thesis using a(2) by blast
qed

lemma batch_import_pg_failed:
  assumes "first_failure sch cols names rs = Some e"
  shows "\<exists>s' tr. batch_import cols names (store_exec Postgres sch) s (Body_array rs) =
                   (Some (error_response 500 batch_failed_message e), s', tr)"
proof -
  let ?s1 = "case saved s of None \<Rightarrow> s\<lparr>saved := Some (table s, seq s)\<rparr> | Some _ \<Rightarrow> s"
  obtain out s2 tr where
    loop: "import_loop cols names (store_exec Postgres sch) ?s1 0 rs = (out, s2, tr)"
    by (cases "import_loop cols names (store_exec Postgres sch) ?s1 0 rs")
  from import_loop_pg[OF loop] assms have "out = Inl e"
    by simp
  with batch_import_pg[OF loop] show ?thesis by simp
qed

lemma batch_import_pg_201:
  assumes "batch_import cols names (store_exec Postgres sch) s (Body_array rs) = (Some res, s', tr)"
    and "status res = 201"
  shows "first_failure sch cols names rs = None"
proof (cases "first_failure sch cols names rs")
  case None
  then show ?thesis .
next
  case (Some e)
  from batch_import_pg_failed[OF Some, of s] assms show ?thesis
    by (auto simp add: error_response_def)
qed

section \<open>The batch import on SQLite\<close>

lemma sqlite_begin:
  "store_exec Sqlite sch s Begin =
     (case saved s of
        None \<Rightarrow> (Inr (Result 0 [] (seq s)), s\<lparr>saved := Some (table s, seq s)\<rparr>)
      | Some _ \<Rightarrow> (Inl nested_transaction, s))"
  by (simp add: store_exec_def split: option.splits)

lemma sqlite_commit:
  "store_exec Sqlite sch s Commit =
     (case saved s of
        Some _ \<Rightarrow> (Inr (Result 0 [] (seq s)), s\<lparr>saved := None\<rparr>)
      | None \<Rightarrow> (Inl (no_transaction ''commit''), s))"
  by (simp add: store_exec_def split: option.splits)

lemma batch_import_sqlite_201:
  assumes "batch_import_sqlite (store_exec Sqlite sch) s (Body_array rs) = (Some res, s', tr)"
    and "status res = 201"
  shows "\<exists>added. table s' = table s @ added
           \<and> map row_data added =
               firsts (map key_of (table s))
                 (filter (\<lambda>t. first_null sch t = None)
                    (map (tuple_of sch sql_columns value_names) (objects rs)))
           \<and> body res = Json_obj [(''message'', imported_message (length added))]"
proof (cases "saved s")
  case (Some x)
  with assms show ?thesis
    by (auto simp add: batch_import_sqlite_def batch_try_def rollback_sqlite_def sqlite_begin error_response_def
          split: prod.splits sum.splits)
next
  case None
  let ?s1 = "s\<lparr>saved := Some (table s, seq s)\<rparr>"
  obtain out s2 tr' where
    loop: "import_loop sql_columns value_names (store_exec Sqlite sch) ?s1 0 rs = (out, s2, tr')"
    by (cases "import_loop sql_columns value_names (store_exec Sqlite sch) ?s1 0 rs")
  show ?thesis
  proof (cases out)
    case (Inl e)
    with assms None loop show ?thesis
      by (auto simp add: batch_import_sqlite_def batch_try_def rollback_sqlite_def sqlite_begin error_response_def
            split: prod.splits sum.splits)
  next
    case (Inr m)
    from import_loop_store[OF loop[unfolded Inr]] obtain added where
      a: "saved s2 = Some (table s, seq s)" "table s2 = table s @ added"
         "map row_data added =
            firsts (map key_of (table s))
              (filter (\<lambda>t. first_null sch t = None)
                 (map (tuple_of sch sql_columns value_names) (objects rs)))"
         "m = length added"
      by auto
    from assms None loop Inr a(1)
    have "s' = s2\<lparr>saved := None\<rparr>" "body res = Json_obj [(''message'', imported_message m)]"
      by (auto simp add: batch_import_sqlite_def batch_try_def sqlite_begin sqlite_commit)
    with a show ?thesis by simp
  qed
qed


section \<open>Creating on PostgreSQL\<close>

lemma insert_raise_pg:
  "store_exec Postgres sch s (Insert cols vals Raise ret) =
     (let t = mk_tuple (columns sch) cols vals in
      case first_null sch t of
        Some c \<Rightarrow> (Inl (not_null_violation Postgres c), s\<lparr>seq := Suc (seq s)\<rparr>)
      | None \<Rightarrow>
          (if col t natural_key \<in> set (map key_of (table s))
           then (Inl (unique_violation Postgres), s\<lparr>seq := Suc (seq s)\<rparr>)
           else (Inr (Result 1 (if ret then [Row (Suc (seq s)) t] else []) (Suc (seq s))),
                 s\<lparr>table := table s @ [Row (Suc (seq s)) t], seq := Suc (seq s)\<rparr>)))"
  by (simp add: store_exec_def insert_row_def Let_def split: option.splits)

lemma create_pessoa_pg:
  "create_pessoa cols names (store_exec Postgres sch) s r =
     (let t = tuple_of sch cols names r in
      case first_null sch t of
        Some c \<Rightarrow>
          (error_response 500 ''Erro ao criar pessoa.'' (not_null_violation Postgres c),
           s\<lparr>seq := Suc (seq s)\<rparr>)
      | None \<Rightarrow>
          (if col t natural_key \<in> set (map key_of (table s))
           then (error_response 409 duplicate_message (unique_violation Postgres),
                 s\<lparr>seq := Suc (seq s)\<rparr>)
           else (\<lparr>status = 201, body = Json_row (Row (Suc (seq s)) t)\<rparr>,
                 s\<lparr>table := table s @ [Row (Suc (seq s)) t], seq := Suc (seq s)\<rparr>)))"
  by (simp add: create_pessoa_def insert_raise_pg tuple_of_def Let_def first_row_def
        not_null_violation_def unique_violation_def split: option.splits)



section \<open>How errors are classified, and the two inserts of the extended schema\<close>

lemma create_pessoa_409_iff:
  "status (fst (create_pessoa cols names exec s r)) = 409 \<longleftrightarrow>
     (\<exists>e. fst (exec s (Insert cols (map r names) Raise True)) = Inl e \<and> code e = Some ''23505'')"
  by (auto simp add: create_pessoa_def error_response_def split: prod.splits sum.splits)

lemma update_pessoa_409_iff:
  "status (fst (update_pessoa cols names exec s p r)) = 409 \<longleftrightarrow>
     (\<exists>e. fst (exec s (Update cols (map r names) p)) = Inl e \<and> code e = Some ''23505'')"
  by (auto simp add: update_pessoa_def error_response_def not_found_response_def
        split: prod.splits sum.splits)

lemma create_pessoa_other_error:
  "fst (exec s (Insert cols (map r names) Raise True)) = Inl e \<Longrightarrow> code e \<noteq> Some ''23505'' \<Longrightarrow>
     fst (create_pessoa cols names exec s r) = error_response 500 ''Erro ao criar pessoa.'' e"
  by (auto simp add: create_pessoa_def split: prod.splits sum.splits)

lemma update_pessoa_other_error:
  "fst (exec s (Update cols (map r names) p)) = Inl e \<Longrightarrow> code e \<noteq> Some ''23505'' \<Longrightarrow>
     fst (update_pessoa cols names exec s p r) = error_response 500 ''Erro ao atualizar pessoa.'' e"
  by (auto simp add: update_pessoa_def split: prod.splits sum.splits)

lemma create_pessoa_sqlite_409_iff:
  "status (fst (create_pessoa_sqlite exec s r)) = 409 \<longleftrightarrow>
     (\<exists>e. code e = Some ''SQLITE_CONSTRAINT'' \<and>
        (fst (exec s (Insert sql_columns (map r value_names) Raise False)) = Inl e
         \<or> (\<exists>res s'. exec s (Insert sql_columns (map r value_names) Raise False) = (Inr res, s')
               \<and> fst (exec s' (Select_id (Id_int (int (lastID res))))) = Inl e)))"
  by (auto simp add: create_pessoa_sqlite_def create_catch_sqlite_def error_response_def
        split: prod.splits sum.splits)

lemma tuple_ext_create:
  "tuple_of pessoas_schema_ext sql_columns_ext value_names_ext r =
     map (\<lambda>c. (c, r c)) (columns pessoas_schema_ext)"
  by (simp add: tuple_of_def mk_tuple_def pessoas_schema_ext_def sql_columns_ext_def
        value_names_ext_def)

lemma tuple_ext_batch:
  "tuple_of pessoas_schema_ext sql_columns_ext_batch value_names_ext_batch r =
     map (\<lambda>c. (c, r c)) (columns pessoas_schema_ext)"
  by (simp add: tuple_of_def mk_tuple_def pessoas_schema_ext_def sql_columns_ext_batch_def
        value_names_ext_batch_def)

lemma batch_import_pg_rolled_back:
  assumes "first_failure sch cols names rs = Some e" and "saved s = None"
  shows "table (fst (snd (batch_import cols names (store_exec Postgres sch) s (Body_array rs))))
           = table s"
proof -
  let ?s1 = "case saved s of None \<Rightarrow> s\<lparr>saved := Some (table s, seq s)\<rparr> | Some _ \<Rightarrow> s"
  obtain out s2 tr where
    loop: "import_loop cols names (store_exec Postgres sch) ?s1 0 rs = (out, s2, tr)"
    by (cases "import_loop cols names (store_exec Postgres sch) ?s1 0 rs")
  from import_loop_pg[OF loop] assms have "out = Inl e" "saved s2 = Some (table s, seq s)"
    by simp_all
  with batch_import_pg[OF loop] show ?thesis by simp
qed

lemma col_map_columns: "c \<in> set cs \<Longrightarrow> col (map (\<lambda>c. (c, r c)) cs) c = r c"
  by (simp add: col_def map_of_map_restrict)

section \<open>The batch import on SQLite is all or nothing\<close>

lemma import_loop_saved:
  "import_loop cols names (store_exec b sch) s n rs = (out, s', tr) \<Longrightarrow> saved s' = saved s"
proof (induction rs arbitrary: s n tr)
  case Nil
  then show ?case by simp
next
  case (Cons x rs)
  show ?case
  proof (cases x)
    case None
    with Cons.prems show ?thesis by simp
  next
    case (Some r)
    let ?q = "Insert cols (map r names) Do_nothing False"
    obtain o1 s1 where ex: "store_exec b sch s ?q = (o1, s1)"
      by (cases "store_exec b sch s ?q")
    then have s1: "saved s1 = saved s"
      by (auto simp add: insert_do_nothing Let_def split: option.splits if_splits)
    show ?thesis
    proof (cases o1)
      case (Inl e)
      with Cons.prems Some ex s1 show ?thesis by simp
    next
      case (Inr res)
      with Cons.prems Some ex obtain tr' where
        "import_loop cols names (store_exec b sch) s1 (if rowCount res > 0 then Suc n else n) rs
           = (out, s', tr')"
        by (auto split: prod.splits)
      from Cons.IH[OF this] s1 show ?thesis by simp
    qed
  qed
qed

lemma sqlite_rollback:
  "store_exec Sqlite sch s Rollback =
     (case saved s of
        Some (t, q) \<Rightarrow> (Inr (Result 0 [] (seq s)), s\<lparr>table := t, seq := q, saved := None\<rparr>)
      | None \<Rightarrow> (Inl (no_transaction ''rollback''), s))"
  by (simp add: store_exec_def split: option.splits)

lemma batch_import_sqlite_atomic:
  assumes "saved s = None"
  shows "\<exists>res s' tr. batch_import_sqlite (store_exec Sqlite sch) s b = (Some res, s', tr)
           \<and> saved s' = None
           \<and> (status res = 201 \<or> (status res = 500 \<and> s' = s))"
proof (cases b)
  case Body_object
  with assms show ?thesis
    by (simp add: batch_import_sqlite_def batch_try_def rollback_sqlite_def sqlite_begin sqlite_rollback
          error_response_def)
next
  case (Body_array rs)
  let ?s1 = "s\<lparr>saved := Some (table s, seq s)\<rparr>"
  obtain out s2 tr where
    loop: "import_loop sql_columns value_names (store_exec Sqlite sch) ?s1 0 rs = (out, s2, tr)"
    by (cases "import_loop sql_columns value_names (store_exec Sqlite sch) ?s1 0 rs")
  from import_loop_saved[OF loop] have sv: "saved s2 = Some (table s, seq s)"
    by simp
  have restored: "s2\<lparr>table := table s, seq := seq s, saved := None\<rparr> = s"
    using assms by simp
  show ?thesis
  proof (cases out)
    case (Inl e)
    with assms Body_array loop sv restored show ?thesis
      by (simp add: batch_import_sqlite_def batch_try_def rollback_sqlite_def sqlite_begin sqlite_rollback
            error_response_def)
  next
    case (Inr m)
    with assms Body_array loop sv show ?thesis
      by (simp add: batch_import_sqlite_def batch_try_def sqlite_begin sqlite_commit)
  qed
qed

section \<open>The batch import on a store that may fail\<close>

lemma msg_cnscpf:
  "message (not_null_violation Postgres ''cnsCpf'') =
     ''null value in column '' @ [CHR 0x22] @ ''cnscpf'' @ [CHR 0x22] @ '' of relation ''
       @ [CHR 0x22] @ ''pessoas'' @ [CHR 0x22] @ '' violates not-null constraint''"
  by code_simp

lemma faulty_none: "faulty (\<lambda>_. None) exec = exec"
  by (rule ext, rule ext) (simp add: faulty_def)


lemma import_loop_table_faulty:
  "import_loop cols names (faulty f (store_exec b sch)) s n rs = (out, s', tr) \<Longrightarrow>
     \<exists>added. table s' = table s @ added"
proof (induction rs arbitrary: s n tr)
  case Nil
  then show ?case by simp
next
  case (Cons x rs)
  show ?case
  proof (cases x)
    case None
    with Cons.prems show ?thesis by simp
  next
    case (Some r)
    let ?q = "Insert cols (map r names) Do_nothing False"
    obtain o1 s1 where ex: "faulty f (store_exec b sch) s ?q = (o1, s1)"
      by (cases "faulty f (store_exec b sch) s ?q")
    then have s1: "\<exists>a. table s1 = table s @ a"
      by (auto simp add: faulty_def insert_do_nothing Let_def split: option.splits if_splits)
    show ?thesis
    proof (cases o1)
      case (Inl e)
      with Cons.prems Some ex s1 show ?thesis by simp
    next
      case (Inr res)
      with Cons.prems Some ex obtain tr' where
        "import_loop cols names (faulty f (store_exec b sch)) s1 (if rowCount res > 0 then Suc n else n) rs
           = (out, s', tr')"
        by (auto split: prod.splits)
      from Cons.IH[OF this] s1 show ?thesis by auto
    qed
  qed
qed






section \<open>The commands the store receives\<close>







section \<open>The shape of the responses\<close>





section \<open>The claims\<close>

text \<open>
  C1. When a batch import ends with status 201, the rows it leaves are the rows from before
  followed by one new row for each candidate whose natural key was not yet present when
  its turn came (\<open>firsts\<close>: not among the earlier rows, not among the earlier candidates
  of the batch); every other candidate adds nothing. The count in the message is the number
  of these new rows, which on PostgreSQL is the number of distinct candidate keys that no
  earlier row had. The first part is the handler of lines 128-151, the second the one of
  lines 273-290, where SQLite also passes over a candidate that leaves a \<open>NOT NULL\<close>
  column empty.
\<close>

theorem imported_count:
  "(batch_import cols names (store_exec Postgres sch) s (Body_array rs) = (Some res, s', tr)
      \<and> status res = 201 \<longrightarrow>
      (\<exists>added. table s' = table s @ added
         \<and> map row_data added =
             firsts (map key_of (table s)) (map (tuple_of sch cols names) (objects rs))
         \<and> body res = Json_obj [(''message'', imported_message (length added))]
         \<and> length added =
             card (set (map (\<lambda>r. col (tuple_of sch cols names r) natural_key) (objects rs))
                   - set (map key_of (table s)))))
   \<and> (batch_import_sqlite (store_exec Sqlite sch) s (Body_array rs) = (Some res, s', tr)
      \<and> status res = 201 \<longrightarrow>
      (\<exists>added. table s' = table s @ added
         \<and> map row_data added =
             firsts (map key_of (table s))
               (filter (\<lambda>t. first_null sch t = None)
                  (map (tuple_of sch sql_columns value_names) (objects rs)))
         \<and> body res = Json_obj [(''message'', imported_message (length added))]))"
proof (intro conjI impI)
  assume run: "batch_import cols names (store_exec Postgres sch) s (Body_array rs) = (Some res, s', tr)
      \<and> status res = 201"
  then have ok: "first_failure sch cols names rs = None"
    using batch_import_pg_201 by blast
  from batch_import_pg_ok[OF ok, of s] run obtain added where
    a: "table s' = table s @ added"
       "map row_data added =
          firsts (map key_of (table s)) (map (tuple_of sch cols names) (objects rs))"
       "body res = Json_obj [(''message'', imported_message (length added))]"
    by auto
  have "length added = length (map row_data added)"
    by simp
  also have "\<dots> = card (set (map (\<lambda>t. col t natural_key) (map (tuple_of sch cols names) (objects rs)))
                   - set (map key_of (table s)))"
    unfolding a(2) by (rule length_firsts)
  finally have "length added =
             card (set (map (\<lambda>r. col (tuple_of sch cols names r) natural_key) (objects rs))
                   - set (map key_of (table s)))"
    by (simp add: comp_def)
  with a show "\<exists>added. table s' = table s @ added
         \<and> map row_data added =
             firsts (map key_of (table s)) (map (tuple_of sch cols names) (objects rs))
         \<and> body res = Json_obj [(''message'', imported_message (length added))]
         \<and> length added =
             card (set (map (\<lambda>r. col (tuple_of sch cols names r) natural_key) (objects rs))
                   - set (map key_of (table s)))"
    by blast
next
  assume "batch_import_sqlite (store_exec Sqlite sch) s (Body_array rs) = (Some res, s', tr)
      \<and> status res = 201"
  then show "\<exists>added. table s' = table s @ added
         \<and> map row_data added =
             firsts (map key_of (table s))
               (filter (\<lambda>t. first_null sch t = None)
                  (map (tuple_of sch sql_columns value_names) (objects rs)))
         \<and> body res = Json_obj [(''message'', imported_message (length added))]"
    using batch_import_sqlite_201 by blast
qed

theorem imported_count_witness:
  "(fst (batch_import sql_columns value_names (store_exec Postgres pessoas_schema) store_with_flor
         (Body_array [Some ana, Some bia, Some caio, Some flor])) =
     Some \<lparr>status = 201, body = Json_obj [(''message'', ''2 registros importados com sucesso.'')]\<rparr>
   \<and> table (fst (snd (batch_import sql_columns value_names (store_exec Postgres pessoas_schema)
         store_with_flor (Body_array [Some ana, Some bia, Some caio, Some flor])))) =
       [row_of 1 flor, row_of 2 ana, row_of 3 bia]
   \<and> (\<exists>added.
         table (fst (snd (batch_import sql_columns value_names (store_exec Postgres pessoas_schema)
           store_with_flor (Body_array [Some ana, Some bia, Some caio, Some flor])))) =
           table store_with_flor @ added
         \<and> Json_obj [(''message'', ''2 registros importados com sucesso.'')] =
             Json_obj [(''message'', imported_message (length added))]
         \<and> length added =
             card (set (map (\<lambda>r. col (tuple_of pessoas_schema sql_columns value_names r) natural_key)
                      (objects [Some ana, Some bia, Some caio, Some flor]))
                   - set (map key_of (table store_with_flor)))))
   \<and> (fst (batch_import_sqlite (store_exec Sqlite pessoas_schema) store_with_flor
         (Body_array [Some ana, Some eva, Some caio, Some flor])) =
     Some \<lparr>status = 201, body = Json_obj [(''message'', ''1 registros importados com sucesso.'')]\<rparr>
   \<and> table (fst (snd (batch_import_sqlite (store_exec Sqlite pessoas_schema) store_with_flor
         (Body_array [Some ana, Some eva, Some caio, Some flor])))) =
       [row_of 1 flor, row_of 2 ana]
   \<and> (\<exists>added.
         table (fst (snd (batch_import_sqlite (store_exec Sqlite pessoas_schema) store_with_flor
           (Body_array [Some ana, Some eva, Some caio, Some flor])))) =
           table store_with_flor @ added
         \<and> Json_obj [(''message'', ''1 registros importados com sucesso.'')] =
             Json_obj [(''message'', imported_message (length added))]))"
proof -
  let ?run = "batch_import sql_columns value_names (store_exec Postgres pessoas_schema)
                store_with_flor (Body_array [Some ana, Some bia, Some caio, Some flor])"
  let ?res = "\<lparr>status = 201, body = Json_obj [(''message'', ''2 registros importados com sucesso.'')]\<rparr>"
  have r: "fst ?run = Some ?res"
    by code_simp
  have t: "table (fst (snd ?run)) = [row_of 1 flor, row_of 2 ana, row_of 3 bia]"
    by code_simp
  have run: "?run = (Some ?res, fst (snd ?run), snd (snd ?run))"
    using r by (simp add: prod_eq_iff)
  from imported_count[of sql_columns value_names pessoas_schema store_with_flor
         "[Some ana, Some bia, Some caio, Some flor]" ?res "fst (snd ?run)" "snd (snd ?run)"] run
  have pg: "\<exists>added.
         table (fst (snd ?run)) = table store_with_flor @ added
         \<and> Json_obj [(''message'', ''2 registros importados com sucesso.'')] =
             Json_obj [(''message'', imported_message (length added))]
         \<and> length added =
             card (set (map (\<lambda>r. col (tuple_of pessoas_schema sql_columns value_names r) natural_key)
                      (objects [Some ana, Some bia, Some caio, Some flor]))
                   - set (map key_of (table store_with_flor)))"
    by auto
  let ?lrun = "batch_import_sqlite (store_exec Sqlite pessoas_schema) store_with_flor
                 (Body_array [Some ana, Some eva, Some caio, Some flor])"
  let ?lres = "\<lparr>status = 201, body = Json_obj [(''message'', ''1 registros importados com sucesso.'')]\<rparr>"
  have lr: "fst ?lrun = Some ?lres"
    by code_simp
  have lt: "table (fst (snd ?lrun)) = [row_of 1 flor, row_of 2 ana]"
    by code_simp
  have lrun: "?lrun = (Some ?lres, fst (snd ?lrun), snd (snd ?lrun))"
    using lr by (simp add: prod_eq_iff)
  from imported_count[of sql_columns value_names pessoas_schema store_with_flor
         "[Some ana, Some eva, Some caio, Some flor]" ?lres "fst (snd ?lrun)" "snd (snd ?lrun)"] lrun
  have lite: "\<exists>added.
         table (fst (snd ?lrun)) = table store_with_flor @ added
         \<and> Json_obj [(''message'', ''1 registros importados com sucesso.'')] =
             Json_obj [(''message'', imported_message (length added))]"
    by auto
  from r t pg lr lt lite show ?thesis by blast
qed




text \<open>
  C3. The response of a successful import has no field \<^verbatim>\<open>importedCount\<close>: importing one
  candidate into the empty table answers 201 with the object whose only field is
  \<^verbatim>\<open>message\<close>.
\<close>

theorem batch_import_body_counterexample:
  "fst (batch_import sql_columns value_names (store_exec Postgres pessoas_schema) empty_store
         (Body_array [Some ana])) =
     Some \<lparr>status = 201, body = Json_obj [(''message'', ''1 registros importados com sucesso.'')]\<rparr>
   \<and> \<not> has_field ''importedCount''
         (Json_obj [(''message'', ''1 registros importados com sucesso.'')])"
proof -
  have "fst (batch_import sql_columns value_names (store_exec Postgres pessoas_schema) empty_store
         (Body_array [Some ana])) =
     Some \<lparr>status = 201, body = Json_obj [(''message'', ''1 registros importados com sucesso.'')]\<rparr>"
    by code_simp
  then show ?thesis by (simp add: has_field_def)
qed

text \<open>
  C3, as the code has it. An import whose body has no failure answers 201 with an object
  that has the field \<^verbatim>\<open>message\<close>, its text the number of rows added followed by
  \<^verbatim>\<open> registros importados com sucesso.\<close>, and no field \<^verbatim>\<open>importedCount\<close>.
\<close>

theorem batch_import_body:
  assumes "first_failure sch cols names rs = None"
  shows "\<exists>res s' tr.
           batch_import cols names (store_exec Postgres sch) s (Body_array rs) = (Some res, s', tr)
           \<and> status res = 201
           \<and> body res =
               Json_obj [(''message'', imported_message (length (table s') - length (table s)))]
           \<and> has_field ''message'' (body res)
           \<and> \<not> has_field ''importedCount'' (body res)"
proof -
  from batch_import_pg_ok[OF assms, of s] obtain added s' where
    run: "batch_import cols names (store_exec Postgres sch) s (Body_array rs) =
             (Some \<lparr>status = 201,
                    body = Json_obj [(''message'', imported_message (length added))]\<rparr>,
              s',
              Connect # Begin # map (\<lambda>r. Insert cols (map r names) Do_nothing False) (objects rs)
                @ [Commit, Release])"
    and t: "table s' = table s @ added"
    by blast
  have "length added = length (table s') - length (table s)"
    using t by simp
  with run show ?thesis
    by (simp add: has_field_def)
qed

theorem batch_import_body_witness:
  "first_failure pessoas_schema sql_columns value_names [Some ana, Some bia, Some caio] = None
   \<and> (\<exists>res s' tr.
         batch_import sql_columns value_names (store_exec Postgres pessoas_schema) store_with_flor
           (Body_array [Some ana, Some bia, Some caio]) = (Some res, s', tr)
         \<and> status res = 201
         \<and> body res =
             Json_obj [(''message'', imported_message (length (table s') - length (table store_with_flor)))]
         \<and> has_field ''message'' (body res)
         \<and> \<not> has_field ''importedCount'' (body res))"
proof -
  have h: "first_failure pessoas_schema sql_columns value_names [Some ana, Some bia, Some caio] = None"
    by code_simp
  from batch_import_body[OF h, of store_with_flor] h show ?thesis
    by blast
qed







text \<open>
  C6. On SQLite the handlers test \<^verbatim>\<open>error.code === 'SQLITE_CONSTRAINT'\<close> (lines 228, 251),
  the code of every constraint violation. A create that leaves \<open>nome\<close> empty, on an empty
  table, is answered 409 with the text that the CNS/CPF is already registered, though the
  store reported a \<open>NOT NULL\<close> violation and no row exists; an update does the same. The
  PostgreSQL handlers test the code 23505 of the unique violation alone
  (\<open>create_pessoa_409_iff\<close>, \<open>update_pessoa_409_iff\<close>).
\<close>

theorem sqlite_not_null_answered_409:
  "create_pessoa_sqlite (store_exec Sqlite pessoas_schema) empty_store sem_nome =
     (error_response 409 duplicate_message (not_null_violation Sqlite ''nome''), empty_store)
   \<and> update_pessoa_sqlite (store_exec Sqlite pessoas_schema) store_with_flor (Id_int 1) sem_nome =
     (error_response 409 duplicate_message_update (not_null_violation Sqlite ''nome''),
      store_with_flor)
   \<and> table empty_store = []"
  by code_simp







text \<open>
  C9. In the extended variant the single create (lines 407-424) and the batch import (lines
  503-525) bind a request to the same tuple: every column of the table gets the request
  field of its own name on both paths, \<open>telefone\<close> included, which is the 18th column and
  value of the create and the 4th of the batch import. Started from the same store with no
  transaction open, creating a request and importing it as a batch of one leave tables
  whose rows carry the same values.
\<close>

theorem create_and_batch_store_alike:
  "tuple_of pessoas_schema_ext sql_columns_ext value_names_ext r
     = tuple_of pessoas_schema_ext sql_columns_ext_batch value_names_ext_batch r
   \<and> (\<forall>c \<in> set (columns pessoas_schema_ext).
         col (tuple_of pessoas_schema_ext sql_columns_ext value_names_ext r) c = r c
         \<and> col (tuple_of pessoas_schema_ext sql_columns_ext_batch value_names_ext_batch r) c = r c)
   \<and> sql_columns_ext ! 17 = ''telefone'' \<and> value_names_ext ! 17 = ''telefone''
   \<and> sql_columns_ext_batch ! 3 = ''telefone'' \<and> value_names_ext_batch ! 3 = ''telefone''
   \<and> ''telefone'' \<in> set (columns pessoas_schema_ext)
   \<and> (saved s = None \<longrightarrow>
        map row_data (table (snd (create_pessoa sql_columns_ext value_names_ext
                                   (store_exec Postgres pessoas_schema_ext) s r)))
        = map row_data (table (fst (snd (batch_import sql_columns_ext_batch value_names_ext_batch
                                   (store_exec Postgres pessoas_schema_ext) s (Body_array [Some r]))))))"
proof (intro conjI ballI impI)
  let ?t = "tuple_of pessoas_schema_ext sql_columns_ext value_names_ext r"
  let ?u = "tuple_of pessoas_schema_ext sql_columns_ext_batch value_names_ext_batch r"
  show tu: "?t = ?u"
    by (simp add: tuple_ext_create tuple_ext_batch)
  show "sql_columns_ext ! 17 = ''telefone''"
    by (simp add: sql_columns_ext_def)
  show "value_names_ext ! 17 = ''telefone''"
    by (simp add: value_names_ext_def)
  show "sql_columns_ext_batch ! 3 = ''telefone''"
    by (simp add: sql_columns_ext_batch_def)
  show "value_names_ext_batch ! 3 = ''telefone''"
    by (simp add: value_names_ext_batch_def)
  show "''telefone'' \<in> set (columns pessoas_schema_ext)"
    by (simp add: pessoas_schema_ext_def)
  {
    fix c assume c: "c \<in> set (columns pessoas_schema_ext)"
    then show "col ?t c = r c"
      by (simp add: tuple_ext_create col_map_columns)
    from c show "col ?u c = r c"
      by (simp add: tuple_ext_batch col_map_columns)
  }
  assume sv: "saved s = None"
  let ?pg = "store_exec Postgres pessoas_schema_ext"
  show "map row_data (table (snd (create_pessoa sql_columns_ext value_names_ext ?pg s r)))
        = map row_data (table (fst (snd (batch_import sql_columns_ext_batch value_names_ext_batch
                                   ?pg s (Body_array [Some r])))))"
  proof (cases "first_null pessoas_schema_ext ?t")
    case (Some c)
    then have "first_failure pessoas_schema_ext sql_columns_ext_batch value_names_ext_batch [Some r]
                 = Some (not_null_violation Postgres c)"
      using tu by simp
    from batch_import_pg_rolled_back[OF this sv] Some show ?thesis
      by (simp add: create_pessoa_pg Let_def)
  next
    case None
    then have "first_failure pessoas_schema_ext sql_columns_ext_batch value_names_ext_batch [Some r] = None"
      using tu by simp
    from batch_import_pg_ok[OF this, of s] obtain added s' where
      run: "fst (snd (batch_import sql_columns_ext_batch value_names_ext_batch ?pg s (Body_array [Some r])))
              = s'"
      and t: "table s' = table s @ added"
      and d: "map row_data added = firsts (map key_of (table s)) [?u]"
      by auto
    from None tu run t d show ?thesis
      by (cases "col ?u natural_key \<in> set (map key_of (table s))")
         (simp_all add: create_pessoa_pg Let_def)
  qed
qed

theorem create_and_batch_store_alike_witness:
  "saved empty_store = None
   \<and> col (tuple_of pessoas_schema_ext sql_columns_ext value_names_ext paciente) ''telefone''
       = Some ''5550100''
   \<and> col (tuple_of pessoas_schema_ext sql_columns_ext_batch value_names_ext_batch paciente) ''telefone''
       = Some ''5550100''
   \<and> map row_data (table (snd (create_pessoa sql_columns_ext value_names_ext
                                   (store_exec Postgres pessoas_schema_ext) empty_store paciente)))
       = [tuple_of pessoas_schema_ext sql_columns_ext value_names_ext paciente]
   \<and> map row_data (table (fst (snd (batch_import sql_columns_ext_batch value_names_ext_batch
                                   (store_exec Postgres pessoas_schema_ext) empty_store
                                   (Body_array [Some paciente])))))
       = [tuple_of pessoas_schema_ext sql_columns_ext value_names_ext paciente]"
proof -
  note t = create_and_batch_store_alike[of paciente empty_store]
  note cols = t[THEN conjunct2, THEN conjunct1]
  note tel = t[THEN conjunct2, THEN conjunct2, THEN conjunct2, THEN conjunct2, THEN conjunct2,
               THEN conjunct2, THEN conjunct1]
  note alike = t[THEN conjunct2, THEN conjunct2, THEN conjunct2, THEN conjunct2, THEN conjunct2,
                 THEN conjunct2, THEN conjunct2]
  have sv: "saved empty_store = None"
    by (simp add: empty_store_def)
  have p: "paciente ''telefone'' = Some ''5550100''"
    by (simp add: paciente_def)
  from bspec[OF cols tel] p have
    c1: "col (tuple_of pessoas_schema_ext sql_columns_ext value_names_ext paciente) ''telefone''
           = Some ''5550100''" and
    c2: "col (tuple_of pessoas_schema_ext sql_columns_ext_batch value_names_ext_batch paciente) ''telefone''
           = Some ''5550100''"
    by simp_all
  have cr: "map row_data (table (snd (create_pessoa sql_columns_ext value_names_ext
                                   (store_exec Postgres pessoas_schema_ext) empty_store paciente)))
       = [tuple_of pessoas_schema_ext sql_columns_ext value_names_ext paciente]"
    by code_simp
  have ba: "map row_data (table (fst (snd (batch_import sql_columns_ext_batch value_names_ext_batch
                                   (store_exec Postgres pessoas_schema_ext) empty_store
                                   (Body_array [Some paciente])))))
       = [tuple_of pessoas_schema_ext sql_columns_ext value_names_ext paciente]"
    using mp[OF alike sv] cr by simp
  show ?thesis
    by (intro conjI sv c1 c2 cr ba)
qed

text \<open>
  C10. An import of the empty list succeeds: \<^verbatim>\<open>BEGIN\<close> and \<^verbatim>\<open>COMMIT\<close> are sent, the
  response has status 201 and the message \<^verbatim>\<open>0 registros importados com sucesso.\<close>, and the
  table is the one before. It holds for the minimal and for the extended lists alike.
\<close>

theorem empty_batch_commits:
  "batch_import cols names (store_exec Postgres sch) s (Body_array []) =
     (Some \<lparr>status = 201,
            body = Json_obj [(''message'', ''0 registros importados com sucesso.'')]\<rparr>,
      s\<lparr>saved := None\<rparr>, [Connect, Begin, Commit, Release])
   \<and> table (s\<lparr>saved := None\<rparr>) = table s"
  by (simp add: batch_import_pg[of _ _ _ _ "[]"] imported_message_def string_of_nat_0
        split: option.splits)

theorem empty_batch_commits_witness:
  "batch_import sql_columns value_names (store_exec Postgres pessoas_schema) empty_store
     (Body_array []) =
     (Some \<lparr>status = 201,
            body = Json_obj [(''message'', ''0 registros importados com sucesso.'')]\<rparr>,
      empty_store, [Connect, Begin, Commit, Release])"
  using empty_batch_commits[of sql_columns value_names pessoas_schema empty_store]
  by (simp add: empty_store_def)

end
